theory Spec2Isabelle
  imports Main "HOL-Library.AList"
begin

section \<open>Python values\<close>

text \<open>
  The library is Python 2 code working on the records the remote API returns: dicts
  with string keys whose values are \<open>None\<close>, booleans, integers, byte strings, nested
  dicts, and objects such as timestamps. A dict is the list of its items in iteration
  order; a key is looked up with \<open>map_of\<close>, so the first item of a key is the one a
  lookup sees. \<open>PObj text truth\<close> is any other object that is neither a number, a
  string nor a container (a timestamp, say), given by its \<open>str()\<close> text and its truth
  value.
\<close>

datatype pyval =
    PNone
  | PBool bool
  | PInt int
  | PStr string
  | PDict "(string \<times> pyval) list"
  | PObj string bool

type_synonym pydict = "(string \<times> pyval) list"

text \<open>
  The exceptions the code raises or lets through. \<open>ValueError\<close> carries its message,
  \<open>KeyError\<close> the missing key; \<open>OtherError\<close> is any failure of the environment
  (an import that fails, a remote query that fails).
\<close>

datatype error =
    KeyError string
  | ValueError string
  | TypeError
  | AttributeError
  | IndexError
  | OtherError string

type_synonym 'a result = "error + 'a"

text \<open>Sequencing: the first exception raised ends the evaluation.\<close>

definition and_then :: "'a result \<Rightarrow> ('a \<Rightarrow> 'b result) \<Rightarrow> 'b result" where
  "and_then r f = (case r of Inl e \<Rightarrow> Inl e | Inr x \<Rightarrow> f x)"

subsection \<open>Truth value, item access, membership\<close>

fun truthy :: "pyval \<Rightarrow> bool" where
  "truthy PNone = False"
| "truthy (PBool b) = b"
| "truthy (PInt i) = (i \<noteq> 0)"
| "truthy (PStr s) = (s \<noteq> [])"
| "truthy (PDict kvs) = (kvs \<noteq> [])"
| "truthy (PObj t b) = b"

text \<open>\<open>d.get(key)\<close> on a dict: \<open>None\<close> for a missing key.\<close>

definition dict_get :: "pydict \<Rightarrow> string \<Rightarrow> pyval" where
  "dict_get d key = (case map_of d key of None \<Rightarrow> PNone | Some v \<Rightarrow> v)"

text \<open>\<open>x.get(key)\<close> on any value: only a dict has the method.\<close>

fun py_get :: "pyval \<Rightarrow> string \<Rightarrow> pyval result" where
  "py_get (PDict d) key = Inr (dict_get d key)"
| "py_get _ key = Inl AttributeError"

text \<open>\<open>x[key]\<close> with a string key: a dict raises \<open>KeyError\<close> on a missing key, every
  other value of the universe raises \<open>TypeError\<close>.\<close>

fun py_getitem :: "pyval \<Rightarrow> string \<Rightarrow> pyval result" where
  "py_getitem (PDict d) key =
     (case map_of d key of None \<Rightarrow> Inl (KeyError key) | Some v \<Rightarrow> Inr v)"
| "py_getitem _ key = Inl TypeError"

fun is_substring :: "string \<Rightarrow> string \<Rightarrow> bool" where
  "is_substring p [] = (p = [])"
| "is_substring p (c # cs) = (take (length p) (c # cs) = p \<or> is_substring p cs)"

text \<open>\<open>key in x\<close> with a string key: key membership on a dict, the substring test on
  a string, \<open>TypeError\<close> on a value that is not iterable.\<close>

fun py_contains :: "string \<Rightarrow> pyval \<Rightarrow> bool result" where
  "py_contains key (PDict d) = Inr (key \<in> set (map fst d))"
| "py_contains key (PStr s) = Inr (is_substring key s)"
| "py_contains key _ = Inl TypeError"

subsection \<open>Text of a value\<close>

definition digit_char :: "nat \<Rightarrow> char" where
  "digit_char d = char_of (48 + d)"

fun dec_nat :: "nat \<Rightarrow> string" where
  "dec_nat n = (if n < 10 then [digit_char n] else dec_nat (n div 10) @ [digit_char (n mod 10)])"

declare dec_nat.simps [simp del]

definition dec_int :: "int \<Rightarrow> string" where
  "dec_int i = (if i < 0 then CHR ''-'' # dec_nat (nat (- i)) else dec_nat (nat i))"

definition hex_char :: "nat \<Rightarrow> char" where
  "hex_char d = (if d < 10 then char_of (48 + d) else char_of (87 + d))"

text \<open>\<open>repr\<close> of a byte string (Python 2): single quotes, unless the string has a
  single quote and no double quote; backslash, the quote, tab, newline and carriage
  return escaped, every other byte outside the printable ASCII range as \<open>\xNN\<close>.\<close>

definition repr_char :: "char \<Rightarrow> char \<Rightarrow> string" where
  "repr_char q c =
     (let n = (of_char c :: nat) in
      if c = q \<or> c = CHR 0x5C then [CHR 0x5C, c]
      else if n = 9 then [CHR 0x5C, CHR ''t'']
      else if n = 10 then [CHR 0x5C, CHR ''n'']
      else if n = 13 then [CHR 0x5C, CHR ''r'']
      else if n < 32 \<or> 127 \<le> n then
        [CHR 0x5C, CHR ''x'', hex_char (n div 16), hex_char (n mod 16)]
      else [c])"

definition repr_str :: "string \<Rightarrow> string" where
  "repr_str s =
     (let q = (if CHR 0x27 \<in> set s \<and> CHR 0x22 \<notin> set s then CHR 0x22 else CHR 0x27)
      in [q] @ concat (map (repr_char q) s) @ [q])"

fun join :: "string \<Rightarrow> string list \<Rightarrow> string" where
  "join sep [] = []"
| "join sep [x] = x"
| "join sep (x # y # ys) = x @ sep @ join sep (y # ys)"

text \<open>\<open>repr\<close> and \<open>str\<close> of a value. They differ on strings only; a dict prints its
  items in iteration order. Integers are in the range of Python 2's \<open>int\<close>, whose
  \<open>repr\<close> is the decimal numeral.\<close>

fun py_repr :: "pyval \<Rightarrow> string" where
  "py_repr PNone = ''None''"
| "py_repr (PBool b) = (if b then ''True'' else ''False'')"
| "py_repr (PInt i) = dec_int i"
| "py_repr (PStr s) = repr_str s"
| "py_repr (PDict kvs) =
     ''{'' @ join '', '' (map (\<lambda>(k, v). repr_str k @ '': '' @ py_repr v) kvs) @ ''}''"
| "py_repr (PObj t b) = t"

fun py_str :: "pyval \<Rightarrow> string" where
  "py_str (PStr s) = s"
| "py_str v = py_repr v"

text \<open>The \<open>%d\<close> conversion: a number is required; a boolean counts as 1 or 0.\<close>

fun format_d :: "pyval \<Rightarrow> string result" where
  "format_d (PInt i) = Inr (dec_int i)"
| "format_d (PBool b) = Inr (if b then ''1'' else ''0'')"
| "format_d _ = Inl TypeError"

subsection \<open>Splitting a string\<close>

text \<open>\<open>s.split(sep, maxsplit)\<close> for a one-character separator: at most \<open>maxsplit\<close>
  cuts, from the left. \<open>s.split(sep)\<close> cuts at every separator, which is what a limit
  of \<open>length s\<close> does.\<close>

fun py_splitn :: "char \<Rightarrow> nat \<Rightarrow> string \<Rightarrow> string list" where
  "py_splitn c 0 s = [s]"
| "py_splitn c (Suc n) s =
     (case dropWhile (\<lambda>x. x \<noteq> c) s of
        [] \<Rightarrow> [s]
      | _ # rest \<Rightarrow> takeWhile (\<lambda>x. x \<noteq> c) s # py_splitn c n rest)"

definition py_split :: "char \<Rightarrow> string \<Rightarrow> string list" where
  "py_split c s = py_splitn c (length s) s"

text \<open>\<open>xs[i]\<close> for a non-negative index: \<open>IndexError\<close> out of range.\<close>

definition py_index :: "'a list \<Rightarrow> nat \<Rightarrow> 'a result" where
  "py_index xs i = (if i < length xs then Inr (xs ! i) else Inl IndexError)"

section \<open>The event\<close>

text \<open>
  An \<open>Event\<close> is a dict (its items are \<open>raw\<close>) with a reference to the API client,
  which is \<open>None\<close> unless the constructor is given one. The client is known by its
  \<open>find_one\<close> and by the queries it has been sent.
\<close>

type_synonym query = "pyval \<times> (string \<times> string \<times> pyval) list"

record client =
  find_one :: "query \<Rightarrow> pyval result"
  queries :: "query list"

record event =
  raw :: pydict
  shotgun :: "client option"

text \<open>\<open>_item_property(key, transform)\<close>: \<open>event.get(key)\<close>, through \<open>transform\<close> when
  there is one.\<close>

definition item_property :: "string \<Rightarrow> (pyval \<Rightarrow> pyval result) option \<Rightarrow> event \<Rightarrow> pyval result" where
  "item_property key transform ev =
     (case transform of
        Some f \<Rightarrow> f (dict_get (raw ev) key)
      | None \<Rightarrow> Inr (dict_get (raw ev) key))"

text \<open>The transforms \<open>lambda x: x.split('_', 2)[i]\<close> and \<open>lambda x: x.split('_')[i]\<close>:
  only a string has \<open>split\<close>.\<close>

fun split_limited_at :: "nat \<Rightarrow> pyval \<Rightarrow> pyval result" where
  "split_limited_at i (PStr x) = map_sum id PStr (py_index (py_splitn CHR ''_'' 2 x) i)"
| "split_limited_at i _ = Inl AttributeError"

fun split_at :: "nat \<Rightarrow> pyval \<Rightarrow> pyval result" where
  "split_at i (PStr x) = map_sum id PStr (py_index (py_split CHR ''_'' x) i)"
| "split_at i _ = Inl AttributeError"

definition event_id :: "event \<Rightarrow> pyval result" where
  "event_id = item_property ''id'' None"

definition created_at :: "event \<Rightarrow> pyval result" where
  "created_at = item_property ''created_at'' None"

definition type :: "event \<Rightarrow> pyval result" where
  "type = item_property ''event_type'' None"

definition domain :: "event \<Rightarrow> pyval result" where
  "domain = item_property ''event_type'' (Some (split_limited_at 0))"

definition subtype :: "event \<Rightarrow> pyval result" where
  "subtype = item_property ''event_type'' (Some (split_limited_at 2))"

definition user :: "event \<Rightarrow> pyval result" where
  "user = item_property ''user'' None"

definition meta :: "event \<Rightarrow> pyval result" where
  "meta = item_property ''meta'' None"

definition entity :: "event \<Rightarrow> pyval result" where
  "entity = item_property ''entity'' None"

definition entity_type :: "event \<Rightarrow> pyval result" where
  "entity_type = item_property ''event_type'' (Some (split_at 1))"

text \<open>The property \<open>entity_id\<close>.\<close>

definition entity_id :: "event \<Rightarrow> pyval result" where
  "entity_id ev =
     and_then (entity ev) (\<lambda>e.
       if truthy e then py_getitem e ''id''
       else
         and_then (meta ev) (\<lambda>m.
         and_then (py_contains ''entity_id'' m) (\<lambda>has_id.
           if has_id then
             and_then (subtype ev) (\<lambda>st.
             and_then (if st = PStr ''Change''
                       then py_contains ''actual_attribute_changed'' m
                       else Inr False) (\<lambda>backref.
               if backref then Inr PNone else py_getitem m ''entity_id''))
           else Inr PNone)))"

text \<open>The property \<open>summary\<close>. The tuple of a format is evaluated before the
  formatting; \<open>' '.join(parts)\<close> raises \<open>TypeError\<close> when \<open>self.type\<close>, the first part, is
  not a string.\<close>

definition summary :: "event \<Rightarrow> string result" where
  "summary ev =
     and_then (type ev) (\<lambda>t.
     and_then (entity ev) (\<lambda>e.
     and_then
       (if truthy e then
          and_then (py_getitem e ''type'') (\<lambda>ety.
          and_then (py_getitem e ''id'') (\<lambda>eid.
          and_then (format_d eid) (\<lambda>d.
          and_then (py_get e ''name'') (\<lambda>has_name.
            if truthy has_name then
              and_then (py_getitem e ''name'') (\<lambda>n.
                Inr [''on '' @ py_str ety @ '':'' @ d, ''('' @ [CHR 0x22] @ py_str n @ [CHR 0x22] @ '')''])
            else Inr [''on '' @ py_str ety @ '':'' @ d]))))
        else
          and_then (entity_type ev) (\<lambda>et.
          and_then (entity_id ev) (\<lambda>i.
            Inr [''on '' @ py_str et @ '':'' @ py_str (if truthy i then i else PStr ''unknown'')])))
       (\<lambda>entity_parts.
     and_then (user ev) (\<lambda>u.
     and_then
       (if truthy u then
          and_then (py_getitem u ''type'') (\<lambda>uty.
          and_then (py_getitem u ''id'') (\<lambda>uid.
          and_then (format_d uid) (\<lambda>d.
          and_then (py_get u ''name'') (\<lambda>has_name.
            if truthy has_name then
              and_then (py_getitem u ''name'') (\<lambda>n.
                Inr [''by '' @ py_str uty @ '':'' @ d, ''('' @ [CHR 0x22] @ py_str n @ [CHR 0x22] @ '')''])
            else Inr [''by '' @ py_str uty @ '':'' @ d]))))
        else Inr [])
       (\<lambda>user_parts.
          case t of
            PStr ts \<Rightarrow> Inr (join '' '' (ts # entity_parts @ user_parts))
          | _ \<Rightarrow> Inl TypeError)))))"

text \<open>\<open>__str__\<close>.\<close>

definition event_str :: "event \<Rightarrow> string result" where
  "event_str ev = and_then (summary ev) (\<lambda>s. Inr (''<Event '' @ s @ ''>''))"

text \<open>\<open>dumps\<close> hands the dict to the JSON serialiser of the standard library, which is a
  parameter here: \<open>json sort_keys indent d\<close>.\<close>

definition dumps :: "(bool \<Rightarrow> nat option \<Rightarrow> pydict \<Rightarrow> string result) \<Rightarrow> bool \<Rightarrow> event \<Rightarrow> string result" where
  "dumps json pretty ev = json pretty (if pretty then Some 4 else None) (raw ev)"

subsection \<open>The registry of specializations and the factory\<close>

text \<open>\<open>_specialization_classes\<close> maps \<open>(domain, entity_type, subtype)\<close>, the entity type
  possibly \<open>None\<close>, to a class; \<open>'c\<close> is the type of classes, which are all true.\<close>

type_synonym 'c registry = "(string \<times> string option \<times> string) \<rightharpoonup> 'c"

definition specialization :: "string \<Rightarrow> string option \<Rightarrow> string \<Rightarrow> 'c \<Rightarrow> 'c registry \<Rightarrow> 'c registry" where
  "specialization subtype_key entity_type_key domain_key cls reg =
     reg((domain_key, entity_type_key, subtype_key) \<mapsto> cls)"

text \<open>\<open>Event.__init__(raw, shotgun=None)\<close>.\<close>

definition event_init :: "pydict \<Rightarrow> client option \<Rightarrow> event" where
  "event_init r sg = \<lparr>raw = r, shotgun = sg\<rparr>"

text \<open>\<open>x.split('_', 2)\<close>: only a string has the method.\<close>

fun split_limited :: "pyval \<Rightarrow> string list result" where
  "split_limited (PStr x) = Inr (py_splitn CHR ''_'' 2 x)"
| "split_limited _ = Inl AttributeError"

text \<open>\<open>Event.factory\<close>, called on the class \<open>cls\<close>: the class chosen and the instance
  built. Unpacking into three names raises \<open>ValueError\<close> unless there are three parts.\<close>

definition factory :: "'c registry \<Rightarrow> 'c \<Rightarrow> pydict \<Rightarrow> ('c \<times> event) result" where
  "factory reg cls ev =
     and_then (py_getitem (PDict ev) ''event_type'') (\<lambda>t.
     and_then (split_limited t) (\<lambda>parts.
       case parts of
         [domain_part, entity_type_part, subtype_part] \<Rightarrow>
           (let subcls =
              (case reg (domain_part, Some entity_type_part, subtype_part) of
                 Some c \<Rightarrow> c
               | None \<Rightarrow>
                   (case reg (domain_part, None, subtype_part) of
                      Some c \<Rightarrow> c
                    | None \<Rightarrow> cls))
            in Inr (subcls, event_init ev None))
       | _ \<Rightarrow>
           Inl (ValueError
             (if length parts > 3 then ''too many values to unpack''
              else if length parts = 1 then ''need more than 1 value to unpack''
              else ''need more than '' @ dec_nat (length parts) @ '' values to unpack''))))"

subsection \<open>Finding a retired entity\<close>

text \<open>
  \<open>find_retired_entity\<close> returns a value or raises, and leaves the event (and its
  client) in a new state. \<open>self._shotgun.find_one\<close> is looked up before the arguments
  are evaluated; the query is recorded by the client when it is sent; the item
  assignment \<open>self['entity'] = e\<close> is \<open>AList.update\<close>.
\<close>

definition find_retired_entity :: "event \<Rightarrow> pyval result \<times> event" where
  "find_retired_entity ev =
     (case entity ev of
        Inl err \<Rightarrow> (Inl err, ev)
      | Inr e0 \<Rightarrow>
          if \<not> truthy e0 then
            (case shotgun ev of
               None \<Rightarrow> (Inl AttributeError, ev)
             | Some sg \<Rightarrow>
                 (case and_then (entity_type ev) (\<lambda>et. and_then (event_id ev) (\<lambda>i.
                         Inr (et, [(''$FROM$EventLogEntry.entity.id'', ''is'', i)]))) of
                    Inl err \<Rightarrow> (Inl err, ev)
                  | Inr q \<Rightarrow>
                      (let ev1 = ev\<lparr>shotgun := Some (sg\<lparr>queries := queries sg @ [q]\<rparr>)\<rparr> in
                       case find_one sg q of
                         Inl err \<Rightarrow> (Inl err, ev1)
                       | Inr e \<Rightarrow>
                           if \<not> truthy e then
                             (case and_then (entity_type ev1) (\<lambda>et. and_then (event_id ev1) (\<lambda>i.
                                     and_then (format_d i) (\<lambda>d.
                                       Inr (''could not find retired '' @ py_str et
                                            @ '' for event '' @ d)))) of
                                Inl err \<Rightarrow> (Inl err, ev1)
                              | Inr msg \<Rightarrow> (Inl (ValueError msg), ev1))
                           else
                             (let ev2 = ev1\<lparr>raw := AList.update ''entity'' e (raw ev1)\<rparr>
                              in (entity ev2, ev2)))))
          else (entity ev, ev))"

text \<open>The operations of an event that take no argument but \<open>self\<close> (and \<open>pretty\<close>), and a
  call of one: the value returned or the exception raised, and the event afterwards.
  A property or \<open>dumps\<close> has no assignment in its body.\<close>

datatype operation =
    Get_id | Get_created_at | Get_type | Get_domain | Get_entity_type | Get_subtype
  | Get_user | Get_meta | Get_entity | Get_entity_id | Get_summary | Dumps bool
  | Find_retired_entity

fun call :: "(bool \<Rightarrow> nat option \<Rightarrow> pydict \<Rightarrow> string result) \<Rightarrow> operation \<Rightarrow> event \<Rightarrow> pyval result \<times> event" where
  "call json Get_id ev = (event_id ev, ev)"
| "call json Get_created_at ev = (created_at ev, ev)"
| "call json Get_type ev = (type ev, ev)"
| "call json Get_domain ev = (domain ev, ev)"
| "call json Get_entity_type ev = (entity_type ev, ev)"
| "call json Get_subtype ev = (subtype ev, ev)"
| "call json Get_user ev = (user ev, ev)"
| "call json Get_meta ev = (meta ev, ev)"
| "call json Get_entity ev = (entity ev, ev)"
| "call json Get_entity_id ev = (entity_id ev, ev)"
| "call json Get_summary ev = (map_sum id PStr (summary ev), ev)"
| "call json (Dumps pretty) ev = (map_sum id PStr (dumps json pretty ev), ev)"
| "call json Find_retired_entity ev = find_retired_entity ev"

section \<open>Utilities\<close>

subsection \<open>Characters and regular expressions\<close>

text \<open>\<open>\w\<close> on a byte string: an ASCII letter, a digit or the underscore.\<close>

definition word_char :: "char \<Rightarrow> bool" where
  "word_char c =
     (let n = (of_char c :: nat) in
      (48 \<le> n \<and> n \<le> 57) \<or> (65 \<le> n \<and> n \<le> 90) \<or> (97 \<le> n \<and> n \<le> 122) \<or> n = 95)"

text \<open>\<open>s.upper()\<close> on a byte string: the ASCII lower-case letters change.\<close>

definition upper_char :: "char \<Rightarrow> char" where
  "upper_char c =
     (let n = (of_char c :: nat) in if 97 \<le> n \<and> n \<le> 122 then char_of (n - 32) else c)"

definition upper :: "string \<Rightarrow> string" where
  "upper s = map upper_char s"

text \<open>\<open>re.sub('\W+', repl, s)\<close>: every maximal run of characters that are not word
  characters becomes \<open>repl\<close>.\<close>

function re_sub_nonword :: "string \<Rightarrow> string \<Rightarrow> string" where
  "re_sub_nonword repl [] = []"
| "re_sub_nonword repl (c # cs) =
     (if word_char c then c # re_sub_nonword repl cs
      else repl @ re_sub_nonword repl (dropWhile (\<lambda>x. \<not> word_char x) cs))"
  by pat_completeness auto
termination
  by (relation "measure (\<lambda>(repl, s). length s)")
     (auto simp: length_dropWhile_le less_Suc_eq_le)




subsection \<open>Resolving a function\<close>







subsection \<open>Environment variables for an event\<close>

text \<open>
  The loop of \<open>envvars_for_event\<close> over the items of the dict, in iteration order, with
  the dict \<open>envvars\<close> built so far: \<open>envvars.update(d)\<close> is \<open>envvars ++ d\<close>, and
  \<open>envvars[k] = str(v)\<close> stores the string.
\<close>

function envvars_loop :: "string \<Rightarrow> (string \<rightharpoonup> pyval) \<Rightarrow> pydict \<Rightarrow> (string \<rightharpoonup> pyval)" where
  "envvars_loop prefix envvars [] = envvars"
| "envvars_loop prefix envvars ((k, v) # items) =
     (let k' = prefix @ ''_'' @ re_sub_nonword ''_'' (upper k)
      in case v of
           PDict d \<Rightarrow> envvars_loop prefix (envvars ++ envvars_loop k' Map.empty d) items
         | _ \<Rightarrow> envvars_loop prefix (envvars(k' \<mapsto> PStr (py_str v))) items)"
  by pat_completeness auto
termination
  by (relation "measure (\<lambda>(prefix, envvars, items). size_list (size_prod (\<lambda>_. 0) size) items)")
     auto

definition envvars_for_event :: "pydict \<Rightarrow> string \<Rightarrow> (string \<rightharpoonup> pyval)" where
  "envvars_for_event event prefix = envvars_loop prefix Map.empty event"

text \<open>The projection as the specification words it: the variables of a mapping, one
  for each leaf, named by the path of keys to the leaf; a later variable of the same
  name replaces an earlier one.\<close>

text \<open>Runs of non-word characters replaced by an underscore, read character by
  character: \<open>in_run\<close> says that the character before was not a word character, so that
  its run has its underscore already.\<close>

fun underscore_runs :: "bool \<Rightarrow> string \<Rightarrow> string" where
  "underscore_runs in_run [] = []"
| "underscore_runs in_run (c # cs) =
     (if word_char c then c # underscore_runs False cs
      else if in_run then underscore_runs True cs
      else CHR ''_'' # underscore_runs True cs)"

definition variable_name :: "string \<Rightarrow> string \<Rightarrow> string" where
  "variable_name prefix k = prefix @ ''_'' @ underscore_runs False (upper k)"

fun is_dict :: "pyval \<Rightarrow> bool" where
  "is_dict (PDict d) = True"
| "is_dict _ = False"

function variables :: "string \<Rightarrow> pydict \<Rightarrow> (string \<times> pyval) list" where
  "variables prefix [] = []"
| "variables prefix ((k, v) # items) =
     (case v of
        PDict d \<Rightarrow> variables (variable_name prefix k) d
      | _ \<Rightarrow> [(variable_name prefix k, PStr (py_str v))])
     @ variables prefix items"
  by pat_completeness auto
termination
  by (relation "measure (\<lambda>(prefix, items). size_list (size_prod (\<lambda>_. 0) size) items)")
     auto

section \<open>The specification's wording\<close>

text \<open>
  An entity reference as the specification has it: a mapping with at least a \<open>type\<close>
  and an integer \<open>id\<close>. Its text in a summary is \<open>word type:id\<close>, followed by the name
  in quotes and parentheses when it has a name.
\<close>

fun is_reference :: "pyval \<Rightarrow> bool" where
  "is_reference (PDict r) =
     (map_of r ''type'' \<noteq> None \<and> (case map_of r ''id'' of Some (PInt i) \<Rightarrow> True | _ \<Rightarrow> False))"
| "is_reference _ = False"

fun reference_parts :: "string \<Rightarrow> pyval \<Rightarrow> string list" where
  "reference_parts word (PDict r) =
     (word @ '' '' @ py_str (dict_get r ''type'') @ '':'' @ py_str (dict_get r ''id''))
     # (if truthy (dict_get r ''name'')
        then [''('' @ [CHR 0x22] @ py_str (dict_get r ''name'') @ [CHR 0x22] @ '')'']
        else [])"
| "reference_parts word _ = []"







text \<open>Records and clients for the examples: the event 11 of a retired shot, a client
  that finds the shot by the reverse lookup, and a client that finds nothing.\<close>

definition example_shot :: pyval where
  "example_shot = PDict [(''type'', PStr ''Shot''), (''id'', PInt 7), (''name'', PStr ''Bunny_010'')]"

definition example_query :: query where
  "example_query = (PStr ''Shot'', [(''$FROM$EventLogEntry.entity.id'', ''is'', PInt 11)])"

definition client_with_shot :: client where
  "client_with_shot =
     \<lparr>find_one = (\<lambda>q. if q = example_query then Inr example_shot else Inr PNone), queries = []\<rparr>"

definition client_without_shot :: client where
  "client_without_shot = \<lparr>find_one = (\<lambda>q. Inr PNone), queries = []\<rparr>"

definition retired_event :: "client \<Rightarrow> event" where
  "retired_event c =
     \<lparr>raw = [(''id'', PInt 11), (''event_type'', PStr ''Shotgun_Shot_Retirement''),
             (''entity'', PNone), (''meta'', PDict [(''entity_id'', PInt 7)])],
      shotgun = Some c\<rparr>"

definition live_event :: event where
  "live_event =
     \<lparr>raw = [(''id'', PInt 12), (''event_type'', PStr ''Shotgun_Shot_Change''),
             (''entity'', example_shot)],
      shotgun = None\<rparr>"

section \<open>Splitting\<close>

lemma py_splitn_nonempty: "py_splitn c n s \<noteq> []"
  by (cases n) (auto split: list.splits)

lemma py_splitn_Suc_Nil:
  "dropWhile (\<lambda>x. x \<noteq> c) s = [] \<Longrightarrow> py_splitn c (Suc n) s = [s]"
  by (simp del: dropWhile_eq_Nil_conv)

lemma py_splitn_Suc_Cons:
  "dropWhile (\<lambda>x. x \<noteq> c) s = d # rest \<Longrightarrow>
   py_splitn c (Suc n) s = takeWhile (\<lambda>x. x \<noteq> c) s # py_splitn c n rest"
  by simp

lemma join_Cons: "ws \<noteq> [] \<Longrightarrow> join sep (w # ws) = w @ sep @ join sep ws"
  by (cases ws) auto

text \<open>Joining the parts of a split with the separator gives the string back.\<close>

lemma join_py_splitn: "join [c] (py_splitn c n s) = s"
proof (induction n arbitrary: s)
  case 0
  show ?case by simp
next
  case (Suc n)
  show ?case
  proof (cases "dropWhile (\<lambda>x. x \<noteq> c) s")
    case Nil
    then show ?thesis by (simp add: py_splitn_Suc_Nil del: py_splitn.simps)
  next
    case (Cons d rest)
    have "\<not> hd (dropWhile (\<lambda>x. x \<noteq> c) s) \<noteq> c"
      by (rule hd_dropWhile) (simp add: Cons)
    then have d: "d = c" by (simp add: Cons)
    have "takeWhile (\<lambda>x. x \<noteq> c) s @ dropWhile (\<lambda>x. x \<noteq> c) s = s"
      by (rule takeWhile_dropWhile_id)
    then have "s = takeWhile (\<lambda>x. x \<noteq> c) s @ c # rest"
      by (simp add: Cons d)
    then show ?thesis
      using Suc.IH [of rest]
      by (simp add: py_splitn_Suc_Cons [OF Cons] join_Cons py_splitn_nonempty del: py_splitn.simps)
  qed
qed

lemma length_py_splitn_le_length: "length (py_splitn c n s) \<le> Suc (length s)"
proof (induction n arbitrary: s)
  case 0
  show ?case by simp
next
  case (Suc n)
  show ?case
  proof (cases "dropWhile (\<lambda>x. x \<noteq> c) s")
    case Nil
    then show ?thesis by (simp add: py_splitn_Suc_Nil del: py_splitn.simps)
  next
    case (Cons d rest)
    have "length (d # rest) \<le> length s"
      using length_dropWhile_le [of "\<lambda>x. x \<noteq> c" s] by (simp add: Cons)
    then show ?thesis
      using Suc.IH [of rest] by (simp add: py_splitn_Suc_Cons [OF Cons] del: py_splitn.simps)
  qed
qed

text \<open>A split with a limit is the split with a larger limit, its parts beyond the
  limit joined again.\<close>

lemma py_splitn_limit:
  "n \<le> m \<Longrightarrow> py_splitn c n s =
     (if n < length (py_splitn c m s)
      then take n (py_splitn c m s) @ [join [c] (drop n (py_splitn c m s))]
      else py_splitn c m s)"
proof (induction n arbitrary: m s)
  case 0
  then show ?case using py_splitn_nonempty [of c m s] by (simp add: join_py_splitn)
next
  case (Suc n)
  then obtain m' where m: "m = Suc m'" "n \<le> m'" by (cases m) auto
  show ?case
  proof (cases "dropWhile (\<lambda>x. x \<noteq> c) s")
    case Nil
    then show ?thesis using m by (simp add: py_splitn_Suc_Nil del: py_splitn.simps)
  next
    case (Cons d rest)
    show ?thesis
      using m Suc.IH [of m' rest]
      by (simp add: py_splitn_Suc_Cons [OF Cons] del: py_splitn.simps)
  qed
qed

text \<open>With a limit of the length of the string no part has a separator left: the
  split is the full one.\<close>

lemma py_splitn_segments: "w \<in> set (py_splitn c n s) \<Longrightarrow> length s \<le> n \<Longrightarrow> c \<notin> set w"
proof (induction n arbitrary: s w)
  case 0
  then show ?case by simp
next
  case (Suc n)
  show ?case
  proof (cases "dropWhile (\<lambda>x. x \<noteq> c) s")
    case Nil
    then have "\<forall>x\<in>set s. x \<noteq> c" by (simp add: dropWhile_eq_Nil_conv)
    moreover have "w = s"
      using Suc.prems(1) by (simp add: py_splitn_Suc_Nil [OF Nil] del: py_splitn.simps)
    ultimately show ?thesis by blast
  next
    case (Cons d rest)
    have "length (d # rest) \<le> length s"
      using length_dropWhile_le [of "\<lambda>x. x \<noteq> c" s] by (simp add: Cons)
    then have len: "length rest \<le> n" using Suc.prems by simp
    have tw: "c \<notin> set (takeWhile (\<lambda>x. x \<noteq> c) s)"
      by (auto dest: set_takeWhileD)
    have "w = takeWhile (\<lambda>x. x \<noteq> c) s \<or> w \<in> set (py_splitn c n rest)"
      using Suc.prems(1) by (simp add: py_splitn_Suc_Cons [OF Cons] del: py_splitn.simps)
    then show ?thesis
    proof
      assume "w = takeWhile (\<lambda>x. x \<noteq> c) s"
      with tw show ?thesis by simp
    next
      assume "w \<in> set (py_splitn c n rest)"
      then show ?thesis by (rule Suc.IH [OF _ len])
    qed
  qed
qed

lemma py_split_segments: "w \<in> set (py_split c s) \<Longrightarrow> c \<notin> set w"
  using py_splitn_segments [of w c "length s" s] by (simp add: py_split_def)

lemma join_py_split: "join [c] (py_split c s) = s"
  unfolding py_split_def by (rule join_py_splitn)

section \<open>The segments of an event type\<close>

text \<open>
  C2. For an event whose \<open>event_type\<close> is a string of at least three segments between
  underscores: \<open>domain\<close> is the first segment, \<open>entity_type\<close> the second part of the
  plain split, and \<open>subtype\<close> the third part of the split limited to three parts, which
  is everything after the first two segments, its underscores kept.
\<close>

theorem segments_of_event_type:
  assumes ty: "dict_get (raw ev) ''event_type'' = PStr x"
    and three: "3 \<le> length (py_split CHR ''_'' x)"
  shows "domain ev = Inr (PStr (py_split CHR ''_'' x ! 0))
       \<and> entity_type ev = Inr (PStr (py_split CHR ''_'' x ! 1))
       \<and> subtype ev = Inr (PStr (py_splitn CHR ''_'' 2 x ! 2))
       \<and> py_splitn CHR ''_'' 2 x =
           [py_split CHR ''_'' x ! 0, py_split CHR ''_'' x ! 1,
            join ''_'' (drop 2 (py_split CHR ''_'' x))]"
proof -
  let ?full = "py_split CHR ''_'' x"
  have "length ?full \<le> Suc (length x)"
    unfolding py_split_def by (rule length_py_splitn_le_length)
  with three have le: "2 \<le> length x" by simp
  have lim: "py_splitn CHR ''_'' 2 x = take 2 ?full @ [join ''_'' (drop 2 ?full)]"
    using py_splitn_limit [OF le, of "CHR ''_''" x] three by (simp add: py_split_def)
  obtain a b rest where full: "?full = a # b # rest"
    using three by (cases ?full; cases "tl ?full") auto
  have parts: "py_splitn CHR ''_'' 2 x = [a, b, join ''_'' rest]"
    using lim full by simp
  show ?thesis
    using ty three full parts
    by (simp add: domain_def entity_type_def subtype_def item_property_def py_index_def)
qed

theorem segments_of_event_type_witness:
  "dict_get (raw \<lparr>raw = [(''event_type'', PStr ''Shotgun_Shot_Change'')], shotgun = None\<rparr>)
     ''event_type'' = PStr ''Shotgun_Shot_Change''
   \<and> 3 \<le> length (py_split CHR ''_'' ''Shotgun_Shot_Change'')
   \<and> domain \<lparr>raw = [(''event_type'', PStr ''Shotgun_Shot_Change'')], shotgun = None\<rparr>
       = Inr (PStr ''Shotgun'')
   \<and> entity_type \<lparr>raw = [(''event_type'', PStr ''Shotgun_Shot_Change'')], shotgun = None\<rparr>
       = Inr (PStr ''Shot'')
   \<and> subtype \<lparr>raw = [(''event_type'', PStr ''Shotgun_Shot_Change'')], shotgun = None\<rparr>
       = Inr (PStr ''Change'')"
proof -
  let ?ev = "\<lparr>raw = [(''event_type'', PStr ''Shotgun_Shot_Change'')], shotgun = None\<rparr>"
  have ty: "dict_get (raw ?ev) ''event_type'' = PStr ''Shotgun_Shot_Change''"
    by (simp add: dict_get_def)
  have full: "py_split CHR ''_'' ''Shotgun_Shot_Change'' = [''Shotgun'', ''Shot'', ''Change'']"
    by code_simp
  have three: "3 \<le> length (py_split CHR ''_'' ''Shotgun_Shot_Change'')"
    by (simp add: full)
  show ?thesis
    using segments_of_event_type [OF ty three] ty three by (simp add: full)
qed

section \<open>The entity id\<close>

lemma and_then_simps [simp]:
  "and_then (Inl e) f = Inl e"
  "and_then (Inr x) f = f x"
  by (simp_all add: and_then_def)

lemma item_property_None [simp]:
  "item_property key None ev = Inr (dict_get (raw ev) key)"
  by (simp add: item_property_def)

lemma py_getitem_member:
  "k \<in> set (map fst m) \<Longrightarrow> py_getitem (PDict m) k = Inr (dict_get m k)"
  by (cases "map_of m k") (auto simp: dict_get_def map_of_eq_None_iff)

text \<open>What \<open>entity_id\<close> returns for an event whose \<open>meta\<close> is a dict and whose
  \<open>event_type\<close> has a third segment.\<close>

lemma entity_id_with_meta:
  assumes "dict_get (raw ev) ''meta'' = PDict m"
    and "subtype ev = Inr (PStr st)"
  shows "entity_id ev =
     (if truthy (dict_get (raw ev) ''entity'') then py_getitem (dict_get (raw ev) ''entity'') ''id''
      else if ''entity_id'' \<in> set (map fst m)
              \<and> \<not> (st = ''Change'' \<and> ''actual_attribute_changed'' \<in> set (map fst m))
           then Inr (dict_get m ''entity_id'')
      else Inr PNone)"
  using assms
  by (simp add: entity_id_def entity_def meta_def py_getitem_member del: py_getitem.simps)

text \<open>
  C1. When an event has no entity and its \<open>meta\<close> is absent (the key is missing, or
  its value is \<open>None\<close>), \<open>entity_id\<close> does not return absent: the membership test on
  \<open>None\<close> raises \<open>TypeError\<close>.
\<close>

theorem entity_id_without_meta:
  "entity_id \<lparr>raw = [(''id'', PInt 11), (''event_type'', PStr ''Shotgun_Shot_New'')],
              shotgun = None\<rparr> = Inl TypeError
   \<and> entity_id \<lparr>raw = [(''id'', PInt 11), (''event_type'', PStr ''Shotgun_Shot_New''),
                       (''entity'', PNone), (''meta'', PNone)],
                shotgun = None\<rparr> = Inl TypeError"
  by (simp add: entity_id_def entity_def meta_def dict_get_def)

section \<open>The factory\<close>

lemma py_splitn_saturated:
  "length s \<le> n \<Longrightarrow> length s \<le> m \<Longrightarrow> py_splitn c n s = py_splitn c m s"
proof (induction n arbitrary: m s)
  case 0
  then show ?case by (cases m) simp_all
next
  case (Suc n)
  show ?case
  proof (cases m)
    case 0
    with Suc.prems show ?thesis by simp
  next
    case m: (Suc m')
    show ?thesis
    proof (cases "dropWhile (\<lambda>x. x \<noteq> c) s")
      case Nil
      then show ?thesis using m by (simp add: py_splitn_Suc_Nil del: py_splitn.simps)
    next
      case (Cons d rest)
      have "length (d # rest) \<le> length s"
        using length_dropWhile_le [of "\<lambda>x. x \<noteq> c" s] by (simp add: Cons)
      then have "length rest \<le> n" "length rest \<le> m'"
        using Suc.prems m by simp_all
      then have "py_splitn c n rest = py_splitn c m' rest" by (rule Suc.IH)
      then show ?thesis
        using m by (simp add: py_splitn_Suc_Cons [OF Cons] del: py_splitn.simps)
    qed
  qed
qed

lemma py_splitn_2_of_split:
  "py_splitn c 2 x =
     (if 3 \<le> length (py_split c x)
      then [py_split c x ! 0, py_split c x ! 1, join [c] (drop 2 (py_split c x))]
      else py_split c x)"
proof (cases "3 \<le> length (py_split c x)")
  case True
  have "length (py_split c x) \<le> Suc (length x)"
    unfolding py_split_def by (rule length_py_splitn_le_length)
  with True have le: "2 \<le> length x" by simp
  obtain a b d rest where full: "py_split c x = a # b # d # rest"
    using True
    by (cases "py_split c x"; cases "tl (py_split c x)"; cases "tl (tl (py_split c x))") auto
  show ?thesis
    using py_splitn_limit [OF le, of c x] full by (simp add: py_split_def)
next
  case False
  show ?thesis
  proof (cases "2 \<le> length x")
    case True
    then show ?thesis
      using py_splitn_limit [OF True, of c x] False by (simp add: py_split_def)
  next
    case short: False
    then have "length x \<le> 2" by simp
    then have "py_splitn c 2 x = py_splitn c (length x) x"
      by (rule py_splitn_saturated) simp
    then show ?thesis using False by (simp add: py_split_def)
  qed
qed

text \<open>The result of the factory, by the segments of the event type.\<close>

lemma factory_of_string:
  assumes "map_of ev ''event_type'' = Some (PStr x)"
  shows "factory reg cls ev =
     (if 3 \<le> length (py_split CHR ''_'' x) then
        Inr (case reg (py_split CHR ''_'' x ! 0, Some (py_split CHR ''_'' x ! 1),
                       join ''_'' (drop 2 (py_split CHR ''_'' x))) of
               Some c \<Rightarrow> c
             | None \<Rightarrow>
                 (case reg (py_split CHR ''_'' x ! 0, None,
                            join ''_'' (drop 2 (py_split CHR ''_'' x))) of
                    Some c \<Rightarrow> c
                  | None \<Rightarrow> cls),
             \<lparr>raw = ev, shotgun = None\<rparr>)
      else Inl (ValueError (if length (py_split CHR ''_'' x) = 1
                            then ''need more than 1 value to unpack''
                            else ''need more than 2 values to unpack'')))"
proof (cases "3 \<le> length (py_split CHR ''_'' x)")
  case True
  then show ?thesis
    using assms by (simp add: factory_def py_splitn_2_of_split event_init_def)
next
  case False
  have ne: "py_split CHR ''_'' x \<noteq> []"
    unfolding py_split_def by (rule py_splitn_nonempty)
  have two: "dec_nat (Suc (Suc 0)) = ''2''" by code_simp
  from False ne consider a where "py_split CHR ''_'' x = [a]"
    | a b where "py_split CHR ''_'' x = [a, b]"
    by (cases "py_split CHR ''_'' x"; cases "tl (py_split CHR ''_'' x)";
        cases "tl (tl (py_split CHR ''_'' x))") auto
  then show ?thesis
    using assms by cases (simp_all add: factory_def py_splitn_2_of_split two)
qed

text \<open>
  C3. The factory reads \<open>event_type\<close>, splits it at underscores into at most three
  parts, and returns an instance built from the record, of the class registered for
  \<open>(domain, entity type, subtype)\<close>, else of the class registered for
  \<open>(domain, None, subtype)\<close>, else of the class the factory is called on. It raises
  \<open>KeyError\<close> when the record has no \<open>event_type\<close> and \<open>ValueError\<close> when the event type
  has fewer than three segments.
\<close>

theorem factory_selects:
  "(map_of ev ''event_type'' = None \<longrightarrow> factory reg cls ev = Inl (KeyError ''event_type''))
   \<and> (map_of ev ''event_type'' = Some (PStr x) \<and> length (py_split CHR ''_'' x) < 3 \<longrightarrow>
        (\<exists>msg. factory reg cls ev = Inl (ValueError msg)))
   \<and> (map_of ev ''event_type'' = Some (PStr x) \<and> 3 \<le> length (py_split CHR ''_'' x) \<longrightarrow>
        (\<exists>c. factory reg cls ev = Inr (c, \<lparr>raw = ev, shotgun = None\<rparr>)
           \<and> py_splitn CHR ''_'' 2 x
               = [py_split CHR ''_'' x ! 0, py_split CHR ''_'' x ! 1,
                  join ''_'' (drop 2 (py_split CHR ''_'' x))]
           \<and> (let d = py_split CHR ''_'' x ! 0; e = py_split CHR ''_'' x ! 1;
                    s = join ''_'' (drop 2 (py_split CHR ''_'' x))
                in (\<forall>c'. reg (d, Some e, s) = Some c' \<longrightarrow> c = c')
                 \<and> (\<forall>c'. reg (d, Some e, s) = None \<and> reg (d, None, s) = Some c' \<longrightarrow> c = c')
                 \<and> (reg (d, Some e, s) = None \<and> reg (d, None, s) = None \<longrightarrow> c = cls))))"
proof (intro conjI impI)
  assume "map_of ev ''event_type'' = None"
  then show "factory reg cls ev = Inl (KeyError ''event_type'')"
    by (simp add: factory_def)
next
  assume "map_of ev ''event_type'' = Some (PStr x) \<and> length (py_split CHR ''_'' x) < 3"
  then show "\<exists>msg. factory reg cls ev = Inl (ValueError msg)"
    by (simp add: factory_of_string)
next
  assume a: "map_of ev ''event_type'' = Some (PStr x) \<and> 3 \<le> length (py_split CHR ''_'' x)"
  then show "\<exists>c. factory reg cls ev = Inr (c, \<lparr>raw = ev, shotgun = None\<rparr>)
           \<and> py_splitn CHR ''_'' 2 x
               = [py_split CHR ''_'' x ! 0, py_split CHR ''_'' x ! 1,
                  join ''_'' (drop 2 (py_split CHR ''_'' x))]
           \<and> (let d = py_split CHR ''_'' x ! 0; e = py_split CHR ''_'' x ! 1;
                    s = join ''_'' (drop 2 (py_split CHR ''_'' x))
                in (\<forall>c'. reg (d, Some e, s) = Some c' \<longrightarrow> c = c')
                 \<and> (\<forall>c'. reg (d, Some e, s) = None \<and> reg (d, None, s) = Some c' \<longrightarrow> c = c')
                 \<and> (reg (d, Some e, s) = None \<and> reg (d, None, s) = None \<longrightarrow> c = cls))"
    by (auto simp: factory_of_string py_splitn_2_of_split Let_def split: option.splits)
qed

theorem factory_selects_witness:
  "factory (specialization ''Change'' None ''Shotgun'' ''ChangeEvent'' Map.empty) ''Event''
     [(''id'', PInt 11)] = Inl (KeyError ''event_type'')
   \<and> (\<exists>msg. factory (specialization ''Change'' None ''Shotgun'' ''ChangeEvent'' Map.empty) ''Event''
         [(''event_type'', PStr ''Shotgun_Shot'')] = Inl (ValueError msg))
   \<and> factory (specialization ''Change'' None ''Shotgun'' ''ChangeEvent'' Map.empty) ''Event''
       [(''event_type'', PStr ''Shotgun_Shot_Change'')]
       = Inr (''ChangeEvent'', \<lparr>raw = [(''event_type'', PStr ''Shotgun_Shot_Change'')], shotgun = None\<rparr>)
   \<and> factory (specialization ''Change'' (Some ''Shot'') ''Shotgun'' ''ShotChangeEvent''
                (specialization ''Change'' None ''Shotgun'' ''ChangeEvent'' Map.empty)) ''Event''
       [(''event_type'', PStr ''Shotgun_Shot_Change'')]
       = Inr (''ShotChangeEvent'', \<lparr>raw = [(''event_type'', PStr ''Shotgun_Shot_Change'')], shotgun = None\<rparr>)
   \<and> factory (specialization ''Change'' None ''Shotgun'' ''ChangeEvent'' Map.empty) ''Event''
       [(''event_type'', PStr ''Shotgun_Shot_New'')]
       = Inr (''Event'', \<lparr>raw = [(''event_type'', PStr ''Shotgun_Shot_New'')], shotgun = None\<rparr>)"
proof -
  let ?reg = "specialization ''Change'' None ''Shotgun'' ''ChangeEvent'' Map.empty"
  let ?reg2 = "specialization ''Change'' (Some ''Shot'') ''Shotgun'' ''ShotChangeEvent'' ?reg"
  have s2: "py_split CHR ''_'' ''Shotgun_Shot'' = [''Shotgun'', ''Shot'']" by code_simp
  have s3: "py_split CHR ''_'' ''Shotgun_Shot_Change'' = [''Shotgun'', ''Shot'', ''Change'']"
    by code_simp
  have s4: "py_split CHR ''_'' ''Shotgun_Shot_New'' = [''Shotgun'', ''Shot'', ''New'']"
    by code_simp
  have 1: "factory ?reg ''Event'' [(''id'', PInt 11)] = Inl (KeyError ''event_type'')"
    using factory_selects [of "[(''id'', PInt 11)]" ?reg "''Event''" "''''"] by simp
  have 2: "\<exists>msg. factory ?reg ''Event'' [(''event_type'', PStr ''Shotgun_Shot'')]
             = Inl (ValueError msg)"
    using factory_selects [of "[(''event_type'', PStr ''Shotgun_Shot'')]" ?reg "''Event''"
        "''Shotgun_Shot''"]
    by (simp add: s2)
  have 3: "factory ?reg ''Event'' [(''event_type'', PStr ''Shotgun_Shot_Change'')]
       = Inr (''ChangeEvent'', \<lparr>raw = [(''event_type'', PStr ''Shotgun_Shot_Change'')], shotgun = None\<rparr>)"
    using factory_selects [of "[(''event_type'', PStr ''Shotgun_Shot_Change'')]" ?reg "''Event''"
        "''Shotgun_Shot_Change''"]
    by (auto simp: s3 specialization_def)
  have 4: "factory ?reg2 ''Event'' [(''event_type'', PStr ''Shotgun_Shot_Change'')]
       = Inr (''ShotChangeEvent'', \<lparr>raw = [(''event_type'', PStr ''Shotgun_Shot_Change'')], shotgun = None\<rparr>)"
    using factory_selects [of "[(''event_type'', PStr ''Shotgun_Shot_Change'')]" ?reg2 "''Event''"
        "''Shotgun_Shot_Change''"]
    by (auto simp: s3 specialization_def)
  have 5: "factory ?reg ''Event'' [(''event_type'', PStr ''Shotgun_Shot_New'')]
       = Inr (''Event'', \<lparr>raw = [(''event_type'', PStr ''Shotgun_Shot_New'')], shotgun = None\<rparr>)"
    using factory_selects [of "[(''event_type'', PStr ''Shotgun_Shot_New'')]" ?reg "''Event''"
        "''Shotgun_Shot_New''"]
    by (auto simp: s4 specialization_def)
  from 1 2 3 4 5 show ?thesis by blast
qed

section \<open>The summary\<close>

lemma is_reference_dict:
  assumes "is_reference r"
  obtains d ty i where "r = PDict d" "map_of d ''type'' = Some ty" "map_of d ''id'' = Some (PInt i)"
  using assms by (cases r) (auto split: option.splits pyval.splits)

lemma reference_parts_code:
  assumes ref: "is_reference r" and w: "w = word @ '' ''"
  shows "and_then (py_getitem r ''type'') (\<lambda>ty.
         and_then (py_getitem r ''id'') (\<lambda>i.
         and_then (format_d i) (\<lambda>d.
         and_then (py_get r ''name'') (\<lambda>has_name.
           if truthy has_name then
             and_then (py_getitem r ''name'') (\<lambda>n.
               Inr [w @ py_str ty @ '':'' @ d,
                    ''('' @ [CHR 0x22] @ py_str n @ [CHR 0x22] @ '')''])
           else Inr [w @ py_str ty @ '':'' @ d]))))
       = Inr (reference_parts word r)"
proof -
  from ref obtain d ty i
    where r: "r = PDict d" "map_of d ''type'' = Some ty" "map_of d ''id'' = Some (PInt i)"
    by (rule is_reference_dict)
  show ?thesis
  proof (cases "map_of d ''name''")
    case None
    then show ?thesis using r w by (simp add: dict_get_def)
  next
    case (Some n)
    then show ?thesis using r w by (simp add: dict_get_def)
  qed
qed

lemma summary_characterisation:
  assumes ty: "dict_get (raw ev) ''event_type'' = PStr t"
    and ent: "truthy (dict_get (raw ev) ''entity'') \<Longrightarrow> is_reference (dict_get (raw ev) ''entity'')"
    and no_ent: "\<not> truthy (dict_get (raw ev) ''entity'') \<Longrightarrow>
                   entity_type ev = Inr et \<and> entity_id ev = Inr i"
    and usr: "truthy (dict_get (raw ev) ''user'') \<Longrightarrow> is_reference (dict_get (raw ev) ''user'')"
  shows "summary ev =
     Inr (join '' ''
       (t # (if truthy (dict_get (raw ev) ''entity'')
             then reference_parts ''on'' (dict_get (raw ev) ''entity'')
             else [''on '' @ py_str et @ '':'' @ (if truthy i then py_str i else ''unknown'')])
          @ (if truthy (dict_get (raw ev) ''user'')
             then reference_parts ''by'' (dict_get (raw ev) ''user'')
             else [])))"
proof -
  have e: "truthy (dict_get (raw ev) ''entity'') \<Longrightarrow>
      and_then (py_getitem (dict_get (raw ev) ''entity'') ''type'') (\<lambda>ty.
         and_then (py_getitem (dict_get (raw ev) ''entity'') ''id'') (\<lambda>i.
         and_then (format_d i) (\<lambda>d.
         and_then (py_get (dict_get (raw ev) ''entity'') ''name'') (\<lambda>has_name.
           if truthy has_name then
             and_then (py_getitem (dict_get (raw ev) ''entity'') ''name'') (\<lambda>n.
               Inr [''on '' @ py_str ty @ '':'' @ d,
                    ''('' @ [CHR 0x22] @ py_str n @ [CHR 0x22] @ '')''])
           else Inr [''on '' @ py_str ty @ '':'' @ d]))))
       = Inr (reference_parts ''on'' (dict_get (raw ev) ''entity''))"
    by (rule reference_parts_code [OF ent]) simp_all
  have u: "truthy (dict_get (raw ev) ''user'') \<Longrightarrow>
      and_then (py_getitem (dict_get (raw ev) ''user'') ''type'') (\<lambda>ty.
         and_then (py_getitem (dict_get (raw ev) ''user'') ''id'') (\<lambda>i.
         and_then (format_d i) (\<lambda>d.
         and_then (py_get (dict_get (raw ev) ''user'') ''name'') (\<lambda>has_name.
           if truthy has_name then
             and_then (py_getitem (dict_get (raw ev) ''user'') ''name'') (\<lambda>n.
               Inr [''by '' @ py_str ty @ '':'' @ d,
                    ''('' @ [CHR 0x22] @ py_str n @ [CHR 0x22] @ '')''])
           else Inr [''by '' @ py_str ty @ '':'' @ d]))))
       = Inr (reference_parts ''by'' (dict_get (raw ev) ''user''))"
    by (rule reference_parts_code [OF usr]) simp_all
  show ?thesis
    unfolding summary_def type_def entity_def user_def
    using ty no_ent e u by (simp del: py_getitem.simps py_get.simps)
qed

text \<open>The summary of the specification's example, whatever the type of the event.\<close>

lemma summary_of_example:
  "summary \<lparr>raw = [(''event_type'', PStr t0),
                   (''entity'', PDict [(''type'', PStr ''Shot''), (''id'', PInt 7),
                                      (''name'', PStr ''Bunny_010'')]),
                   (''user'', PDict [(''type'', PStr ''HumanUser''), (''id'', PInt 3),
                                    (''name'', PStr ''Alice'')])],
            shotgun = sg\<rparr>
     = Inr (t0 @ '' on Shot:7 ('' @ [CHR 0x22] @ ''Bunny_010'' @ [CHR 0x22]
            @ '') by HumanUser:3 ('' @ [CHR 0x22] @ ''Alice'' @ [CHR 0x22] @ '')'')"
proof -
  let ?ev = "\<lparr>raw = [(''event_type'', PStr t0),
                       (''entity'', PDict [(''type'', PStr ''Shot''), (''id'', PInt 7),
                                          (''name'', PStr ''Bunny_010'')]),
                       (''user'', PDict [(''type'', PStr ''HumanUser''), (''id'', PInt 3),
                                        (''name'', PStr ''Alice'')])],
                shotgun = sg\<rparr>"
  have seven: "dec_int 7 = ''7''" and three: "dec_int 3 = ''3''" by code_simp+
  have "summary ?ev =
     Inr (join '' ''
       (t0 # (if truthy (dict_get (raw ?ev) ''entity'')
             then reference_parts ''on'' (dict_get (raw ?ev) ''entity'')
             else [''on '' @ py_str PNone @ '':'' @ (if truthy PNone then py_str PNone else ''unknown'')])
          @ (if truthy (dict_get (raw ?ev) ''user'')
             then reference_parts ''by'' (dict_get (raw ?ev) ''user'')
             else [])))"
    by (rule summary_characterisation) (simp_all add: dict_get_def)
  then show ?thesis
    by (simp add: dict_get_def seven three)
qed

text \<open>
  C4. The summary is not built for every event. For an event with no entity the part
  after the type comes from the computed \<open>entity_id\<close>, and for an event that has no
  \<open>meta\<close> either (the key is missing, or its value is \<open>None\<close>) \<open>entity_id\<close> raises
  \<open>TypeError\<close>: so does \<open>summary\<close>, where \<open>on Shot:unknown\<close> was to be appended, and so
  does the text of the event. Where \<open>entity_id\<close> returns, the summary is the one of
  \<open>summary_characterisation\<close>.
\<close>

theorem summary_without_meta:
  "summary \<lparr>raw = [(''id'', PInt 11), (''event_type'', PStr ''Shotgun_Shot_New'')],
            shotgun = None\<rparr> = Inl TypeError
   \<and> summary \<lparr>raw = [(''id'', PInt 11), (''event_type'', PStr ''Shotgun_Shot_New''),
                     (''entity'', PNone), (''meta'', PNone),
                     (''user'', PDict [(''type'', PStr ''HumanUser''), (''id'', PInt 3),
                                      (''name'', PStr ''Alice'')])],
              shotgun = None\<rparr> = Inl TypeError
   \<and> event_str \<lparr>raw = [(''id'', PInt 11), (''event_type'', PStr ''Shotgun_Shot_New'')],
                shotgun = None\<rparr> = Inl TypeError"
  by code_simp

text \<open>
  C9. For an event with no entity whose computed \<open>entity_id\<close> is false as a truth value
  (\<open>None\<close>, but also the id 0), the entity part of the summary is
  \<open>on entity_type:unknown\<close>.
\<close>

theorem summary_unknown_for_false_id:
  assumes ty: "dict_get (raw ev) ''event_type'' = PStr t"
    and no_ent: "\<not> truthy (dict_get (raw ev) ''entity'')"
    and et: "entity_type ev = Inr (PStr et)"
    and ei: "entity_id ev = Inr i"
    and false_id: "\<not> truthy i"
    and usr: "truthy (dict_get (raw ev) ''user'') \<Longrightarrow> is_reference (dict_get (raw ev) ''user'')"
  shows "summary ev =
     Inr (join '' ''
       ([t, ''on '' @ et @ '':unknown'']
        @ (if truthy (dict_get (raw ev) ''user'')
           then reference_parts ''by'' (dict_get (raw ev) ''user'')
           else [])))"
  using summary_characterisation [of ev t "PStr et" i, OF ty _ _ usr] no_ent et ei false_id
  by simp

theorem summary_unknown_for_false_id_witness:
  "entity_id \<lparr>raw = [(''event_type'', PStr ''Shotgun_Shot_New''),
                     (''meta'', PDict [(''entity_id'', PInt 0)])],
              shotgun = None\<rparr> = Inr (PInt 0)
   \<and> \<not> truthy (PInt 0)
   \<and> summary \<lparr>raw = [(''event_type'', PStr ''Shotgun_Shot_New''),
                     (''meta'', PDict [(''entity_id'', PInt 0)])],
              shotgun = None\<rparr>
     = Inr ''Shotgun_Shot_New on Shot:unknown''"
proof -
  let ?ev = "\<lparr>raw = [(''event_type'', PStr ''Shotgun_Shot_New''),
                     (''meta'', PDict [(''entity_id'', PInt 0)])],
              shotgun = None\<rparr>"
  have ty: "dict_get (raw ?ev) ''event_type'' = PStr ''Shotgun_Shot_New''"
    by (simp add: dict_get_def)
  have absent: "\<not> truthy (dict_get (raw ?ev) ''entity'')" "\<not> truthy (dict_get (raw ?ev) ''user'')"
    by (simp_all add: dict_get_def)
  have et: "entity_type ?ev = Inr (PStr ''Shot'')" by code_simp
  have ei: "entity_id ?ev = Inr (PInt 0)" by code_simp
  have "summary ?ev = Inr ''Shotgun_Shot_New on Shot:unknown''"
    using summary_unknown_for_false_id [of ?ev "''Shotgun_Shot_New''" "''Shot''" "PInt 0",
        OF ty absent(1) et ei] absent
    by simp
  with ei show ?thesis by simp
qed

section \<open>Resolving a function\<close>

text \<open>The word characters among the ASCII characters: the digits, the letters and
  the underscore.\<close>

lemma word_char_ascii:
  "list_all word_char ''0123456789ABCDEFGHIJKLMNOPQRSTUVWXYZ_abcdefghijklmnopqrstuvwxyz''"
  "list_all (\<lambda>c. \<not> word_char c) '' !#$%&()*+,-./:;<=>?@[]^`{|}~''"
  "list_all (\<lambda>c. \<not> word_char c)
     [CHR 0x00, CHR 0x09, CHR 0x0A, CHR 0x0D, CHR 0x22, CHR 0x27, CHR 0x5C, CHR 0x7F, CHR 0x80, CHR 0xFF]"
  by (simp_all add: word_char_def)



















section \<open>Environment variables\<close>

text \<open>\<open>re.sub\<close> with the pattern of a run does what the reading character by character
  does.\<close>

lemma underscore_runs_True:
  "underscore_runs True cs = underscore_runs False (dropWhile (\<lambda>x. \<not> word_char x) cs)"
  by (induction cs) simp_all

lemma re_sub_nonword_underscore_runs:
  "repl = ''_'' \<Longrightarrow> re_sub_nonword repl s = underscore_runs False s"
  by (induction repl s rule: re_sub_nonword.induct) (simp_all add: underscore_runs_True)

lemma variable_name_code:
  "prefix @ ''_'' @ re_sub_nonword ''_'' (upper k) = variable_name prefix k"
  by (simp add: variable_name_def re_sub_nonword_underscore_runs)

lemma envvars_loop_dict:
  "envvars_loop prefix envvars ((k, PDict d) # items) =
     envvars_loop prefix (envvars ++ envvars_loop (variable_name prefix k) Map.empty d) items"
  by (simp add: variable_name_code [symmetric])

lemma envvars_loop_leaf:
  "\<not> is_dict v \<Longrightarrow>
   envvars_loop prefix envvars ((k, v) # items) =
     envvars_loop prefix (envvars(variable_name prefix k \<mapsto> PStr (py_str v))) items"
  by (cases v) (simp_all add: variable_name_code [symmetric])

lemma variables_leaf:
  "\<not> is_dict v \<Longrightarrow>
   variables prefix ((k, v) # items) =
     (variable_name prefix k, PStr (py_str v)) # variables prefix items"
  by (cases v) simp_all

text \<open>The loop adds to the dict it is given the variables of the items, the later ones
  over the earlier ones.\<close>

lemma envvars_loop_variables:
  "envvars_loop prefix envvars items = envvars ++ map_of (rev (variables prefix items))"
proof (induction prefix items arbitrary: envvars rule: variables.induct)
  case (1 prefix)
  show ?case by simp
next
  case (2 prefix k v items)
  show ?case
  proof (cases "is_dict v")
    case True
    then obtain d where PDict: "v = PDict d" by (cases v) auto
    have inner: "envvars_loop (variable_name prefix k) Map.empty d
        = map_of (rev (variables (variable_name prefix k) d))"
      using "2.IH"(1) [OF PDict, of Map.empty] by simp
    have "envvars_loop prefix envvars ((k, PDict d) # items)
        = (envvars ++ map_of (rev (variables (variable_name prefix k) d)))
          ++ map_of (rev (variables prefix items))"
      unfolding envvars_loop_dict inner by (rule "2.IH"(2))
    then show ?thesis by (simp add: PDict)
  next
    case False
    have "envvars_loop prefix envvars ((k, v) # items)
        = envvars(variable_name prefix k \<mapsto> PStr (py_str v))
          ++ map_of (rev (variables prefix items))"
      unfolding envvars_loop_leaf [OF False] by (rule "2.IH"(2))
    then show ?thesis
      by (simp add: variables_leaf [OF False] del: envvars_loop.simps variables.simps)
  qed
qed

text \<open>Every variable is named by the prefix, an underscore and more, and its value is
  a string.\<close>

lemma variables_named:
  "(name, val) \<in> set (variables prefix items) \<Longrightarrow>
     (\<exists>rest. name = prefix @ ''_'' @ rest) \<and> (\<exists>s. val = PStr s)"
proof (induction prefix items arbitrary: name val rule: variables.induct)
  case (1 prefix)
  then show ?case by simp
next
  case (2 prefix k v items)
  show ?case
  proof (cases "(name, val) \<in> set (variables prefix items)")
    case True
    then show ?thesis by (rule "2.IH"(2))
  next
    case False
    show ?thesis
    proof (cases v)
      case (PDict d)
      with False "2.prems" have "(name, val) \<in> set (variables (variable_name prefix k) d)"
        by simp
      then have "(\<exists>rest. name = variable_name prefix k @ ''_'' @ rest) \<and> (\<exists>s. val = PStr s)"
        by (rule "2.IH"(1) [OF PDict])
      then show ?thesis by (auto simp: variable_name_def)
    qed (use False "2.prems" in \<open>auto simp: variable_name_def\<close>)
  qed
qed








text \<open>
  C10. Whatever the mapping and the prefix, every key of the result of
  \<open>envvars_for_event\<close> starts with the prefix and an underscore, and every value is a
  string, at any depth of nesting.
\<close>

theorem envvars_for_event_keys_values:
  assumes "envvars_for_event event prefix name = Some val"
  shows "(\<exists>rest. name = prefix @ ''_'' @ rest) \<and> (\<exists>s. val = PStr s)"
proof -
  have "map_of (rev (variables prefix event)) name = Some val"
    using assms by (simp add: envvars_for_event_def envvars_loop_variables)
  then have "(name, val) \<in> set (rev (variables prefix event))"
    by (rule map_of_SomeD)
  then have "(name, val) \<in> set (variables prefix event)" by simp
  then show ?thesis by (rule variables_named)
qed

theorem envvars_for_event_keys_values_witness:
  "envvars_for_event
     [(''id'', PInt 5), (''user'', PDict [(''type'', PStr ''HumanUser''), (''id'', PInt 3)])]
     ''SGEVENT'' ''SGEVENT_USER_ID'' = Some (PStr ''3'')
   \<and> (\<exists>rest. ''SGEVENT_USER_ID'' = ''SGEVENT'' @ ''_'' @ rest)
   \<and> (\<exists>s. PStr ''3'' = PStr s)"
proof -
  have v: "envvars_for_event
     [(''id'', PInt 5), (''user'', PDict [(''type'', PStr ''HumanUser''), (''id'', PInt 3)])]
     ''SGEVENT'' ''SGEVENT_USER_ID'' = Some (PStr ''3'')"
    by code_simp
  from envvars_for_event_keys_values [OF v] v show ?thesis by blast
qed

section \<open>Finding a retired entity\<close>

lemma find_retired_entity_present:
  "truthy (dict_get (raw ev) ''entity'') \<Longrightarrow>
   find_retired_entity ev = (Inr (dict_get (raw ev) ''entity''), ev)"
  by (simp add: find_retired_entity_def entity_def)

lemma dict_get_update: "dict_get (AList.update k v d) k = v"
  by (simp add: dict_get_def update_conv')

lemma find_retired_entity_absent:
  assumes "\<not> truthy (dict_get (raw ev) ''entity'')"
    and "shotgun ev = Some sg"
    and "entity_type ev = Inr et"
  shows "find_retired_entity ev =
     (let q = (et, [(''$FROM$EventLogEntry.entity.id'', ''is'', dict_get (raw ev) ''id'')]);
          ev1 = ev\<lparr>shotgun := Some (sg\<lparr>queries := queries sg @ [q]\<rparr>)\<rparr>
      in case find_one sg q of
           Inl err \<Rightarrow> (Inl err, ev1)
         | Inr e \<Rightarrow>
             if truthy e then (Inr e, ev1\<lparr>raw := AList.update ''entity'' e (raw ev)\<rparr>)
             else (case format_d (dict_get (raw ev) ''id'') of
                     Inl err \<Rightarrow> (Inl err, ev1)
                   | Inr d \<Rightarrow>
                       (Inl (ValueError (''could not find retired '' @ py_str et
                                         @ '' for event '' @ d)), ev1)))"
proof -
  have et1: "\<And>c. entity_type (ev\<lparr>shotgun := c\<rparr>) = Inr et"
    using assms(3) by (simp add: entity_type_def item_property_def)
  show ?thesis
    using assms et1
    by (simp add: find_retired_entity_def entity_def event_id_def Let_def dict_get_update
          split: sum.splits)
qed

text \<open>
  C7. \<open>find_retired_entity\<close> returns the entity of an event that has one, and nothing
  changes. Otherwise it sends the client one query, for the entity of the event's
  \<open>entity_type\<close> whose \<open>$FROM$EventLogEntry.entity.id\<close> is the event's id. An entity that
  comes back is stored under \<open>entity\<close> and returned. When nothing comes back it raises
  \<open>ValueError\<close> with the entity type and the event id in its message, and the record is
  as it was.
\<close>

theorem find_retired_entity_queries_once:
  "(truthy (dict_get (raw ev) ''entity'') \<longrightarrow>
      find_retired_entity ev = (Inr (dict_get (raw ev) ''entity''), ev))
   \<and> (\<not> truthy (dict_get (raw ev) ''entity'') \<and> shotgun ev = Some sg
        \<and> entity_type ev = Inr (PStr et)
        \<and> q = (PStr et, [(''$FROM$EventLogEntry.entity.id'', ''is'', dict_get (raw ev) ''id'')])
      \<longrightarrow>
        map_option queries (shotgun (snd (find_retired_entity ev))) = Some (queries sg @ [q])
        \<and> (find_one sg q = Inr e \<and> truthy e \<longrightarrow>
             fst (find_retired_entity ev) = Inr e
             \<and> raw (snd (find_retired_entity ev)) = AList.update ''entity'' e (raw ev)
             \<and> dict_get (raw (snd (find_retired_entity ev))) ''entity'' = e)
        \<and> (find_one sg q = Inr e \<and> \<not> truthy e \<and> dict_get (raw ev) ''id'' = PInt i \<longrightarrow>
             fst (find_retired_entity ev)
               = Inl (ValueError (''could not find retired '' @ et @ '' for event '' @ dec_int i))
             \<and> raw (snd (find_retired_entity ev)) = raw ev)
        \<and> (find_one sg q = Inl err \<longrightarrow>
             fst (find_retired_entity ev) = Inl err
             \<and> raw (snd (find_retired_entity ev)) = raw ev))"
proof (intro conjI impI)
  assume "truthy (dict_get (raw ev) ''entity'')"
  then show "find_retired_entity ev = (Inr (dict_get (raw ev) ''entity''), ev)"
    by (rule find_retired_entity_present)
next
  assume a: "\<not> truthy (dict_get (raw ev) ''entity'') \<and> shotgun ev = Some sg
        \<and> entity_type ev = Inr (PStr et)
        \<and> q = (PStr et, [(''$FROM$EventLogEntry.entity.id'', ''is'', dict_get (raw ev) ''id'')])"
  then have f: "find_retired_entity ev =
     (let ev1 = ev\<lparr>shotgun := Some (sg\<lparr>queries := queries sg @ [q]\<rparr>)\<rparr>
      in case find_one sg q of
           Inl err \<Rightarrow> (Inl err, ev1)
         | Inr e \<Rightarrow>
             if truthy e then (Inr e, ev1\<lparr>raw := AList.update ''entity'' e (raw ev)\<rparr>)
             else (case format_d (dict_get (raw ev) ''id'') of
                     Inl err \<Rightarrow> (Inl err, ev1)
                   | Inr d \<Rightarrow>
                       (Inl (ValueError (''could not find retired '' @ py_str (PStr et)
                                         @ '' for event '' @ d)), ev1)))"
    using find_retired_entity_absent [of ev sg "PStr et"] by (simp add: Let_def)
  show "map_option queries (shotgun (snd (find_retired_entity ev))) = Some (queries sg @ [q])"
    unfolding f by (simp add: Let_def split: sum.splits)
  {
    assume "find_one sg q = Inr e \<and> truthy e"
    then show "fst (find_retired_entity ev) = Inr e"
      and "raw (snd (find_retired_entity ev)) = AList.update ''entity'' e (raw ev)"
      and "dict_get (raw (snd (find_retired_entity ev))) ''entity'' = e"
      unfolding f by (simp_all add: Let_def dict_get_update)
  }
  {
    assume "find_one sg q = Inr e \<and> \<not> truthy e \<and> dict_get (raw ev) ''id'' = PInt i"
    then show "fst (find_retired_entity ev)
               = Inl (ValueError (''could not find retired '' @ et @ '' for event '' @ dec_int i))"
      and "raw (snd (find_retired_entity ev)) = raw ev"
      unfolding f by (simp_all add: Let_def)
  }
  {
    assume "find_one sg q = Inl err"
    then show "fst (find_retired_entity ev) = Inl err"
      and "raw (snd (find_retired_entity ev)) = raw ev"
      unfolding f by (simp_all add: Let_def)
  }
qed

lemma retired_event_facts:
  "\<not> truthy (dict_get (raw (retired_event c)) ''entity'')"
  "shotgun (retired_event c) = Some c"
  "entity_type (retired_event c) = Inr (PStr ''Shot'')"
  "dict_get (raw (retired_event c)) ''id'' = PInt 11"
  "example_query
     = (PStr ''Shot'', [(''$FROM$EventLogEntry.entity.id'', ''is'', dict_get (raw (retired_event c)) ''id'')])"
proof -
  have "py_split CHR ''_'' ''Shotgun_Shot_Retirement'' = [''Shotgun'', ''Shot'', ''Retirement'']"
    by code_simp
  then show "entity_type (retired_event c) = Inr (PStr ''Shot'')"
    by (simp add: retired_event_def entity_type_def item_property_def dict_get_def py_index_def)
qed (simp_all add: retired_event_def dict_get_def example_query_def)

lemma example_client_facts:
  "find_one client_with_shot example_query = Inr example_shot"
  "queries client_with_shot = []"
  "find_one client_without_shot example_query = Inr PNone"
  "queries client_without_shot = []"
  "truthy example_shot"
  by (simp_all add: client_with_shot_def client_without_shot_def example_shot_def)

theorem find_retired_entity_queries_once_witness:
  "find_retired_entity live_event = (Inr example_shot, live_event)
   \<and> fst (find_retired_entity (retired_event client_with_shot)) = Inr example_shot
   \<and> dict_get (raw (snd (find_retired_entity (retired_event client_with_shot)))) ''entity''
       = example_shot
   \<and> map_option queries (shotgun (snd (find_retired_entity (retired_event client_with_shot))))
       = Some [example_query]
   \<and> fst (find_retired_entity (retired_event client_without_shot))
       = Inl (ValueError ''could not find retired Shot for event 11'')
   \<and> raw (snd (find_retired_entity (retired_event client_without_shot)))
       = raw (retired_event client_without_shot)
   \<and> map_option queries (shotgun (snd (find_retired_entity (retired_event client_without_shot))))
       = Some [example_query]"
proof -
  have live: "truthy (dict_get (raw live_event) ''entity'')"
    "dict_get (raw live_event) ''entity'' = example_shot"
    by (simp_all add: live_event_def dict_get_def example_shot_def)
  have 1: "find_retired_entity live_event = (Inr example_shot, live_event)"
    using find_retired_entity_queries_once [of live_event] live by simp
  note found = find_retired_entity_queries_once
    [of "retired_event client_with_shot" client_with_shot "''Shot''" example_query example_shot]
  have 2: "fst (find_retired_entity (retired_event client_with_shot)) = Inr example_shot"
    and 3: "dict_get (raw (snd (find_retired_entity (retired_event client_with_shot)))) ''entity''
         = example_shot"
    and 4: "map_option queries (shotgun (snd (find_retired_entity (retired_event client_with_shot))))
         = Some (queries client_with_shot @ [example_query])"
    using found retired_event_facts [of client_with_shot] example_client_facts by blast+
  have eleven: "dec_int 11 = ''11''" by code_simp
  note lost = find_retired_entity_queries_once
    [of "retired_event client_without_shot" client_without_shot "''Shot''" example_query PNone 11]
  have "\<not> truthy PNone" by simp
  then have 5: "fst (find_retired_entity (retired_event client_without_shot))
       = Inl (ValueError (''could not find retired '' @ ''Shot'' @ '' for event '' @ dec_int 11))"
    and 6: "raw (snd (find_retired_entity (retired_event client_without_shot)))
         = raw (retired_event client_without_shot)"
    and 7: "map_option queries (shotgun (snd (find_retired_entity (retired_event client_without_shot))))
         = Some (queries client_without_shot @ [example_query])"
    using lost retired_event_facts [of client_without_shot] example_client_facts by blast+
  from 1 2 3 4 5 6 7 show ?thesis
    by (simp add: eleven example_client_facts)
qed

section \<open>What an operation changes\<close>

lemma find_retired_entity_frame:
  "(key \<noteq> ''entity'' \<longrightarrow>
      map_of (raw (snd (find_retired_entity ev))) key = map_of (raw ev) key)
   \<and> (raw (snd (find_retired_entity ev)) \<noteq> raw ev \<longrightarrow>
        \<not> truthy (dict_get (raw ev) ''entity'')
        \<and> truthy (dict_get (raw (snd (find_retired_entity ev))) ''entity'')
        \<and> fst (find_retired_entity ev) = Inr (dict_get (raw (snd (find_retired_entity ev))) ''entity'')
        \<and> raw (snd (find_retired_entity ev))
            = AList.update ''entity'' (dict_get (raw (snd (find_retired_entity ev))) ''entity'') (raw ev))
   \<and> ((\<exists>err. fst (find_retired_entity ev) = Inl err) \<longrightarrow>
        raw (snd (find_retired_entity ev)) = raw ev)"
proof (cases "truthy (dict_get (raw ev) ''entity'')")
  case True
  then show ?thesis by (simp add: find_retired_entity_present)
next
  case False
  show ?thesis
  proof (cases "shotgun ev")
    case None
    with False show ?thesis by (simp add: find_retired_entity_def entity_def)
  next
    case (Some sg)
    show ?thesis
    proof (cases "entity_type ev")
      case (Inl err)
      with False Some show ?thesis by (simp add: find_retired_entity_def entity_def)
    next
      case (Inr et)
      show ?thesis
        unfolding find_retired_entity_absent [OF False Some Inr]
        using False
        by (simp add: Let_def dict_get_update update_conv' split: sum.splits)
    qed
  qed
qed

text \<open>
  C8. Reading a property of an event, or serialising it with \<open>dumps\<close>, leaves the event
  as it is. \<open>find_retired_entity\<close> is the only operation that changes the record, and
  what it changes is the value under \<open>entity\<close>, once, from absent to the entity it
  returns; no other key changes, and nothing changes when it raises.
\<close>

theorem only_find_retired_entity_mutates:
  "(op \<noteq> Find_retired_entity \<longrightarrow> snd (call json op ev) = ev)
   \<and> (key \<noteq> ''entity'' \<longrightarrow> map_of (raw (snd (call json op ev))) key = map_of (raw ev) key)
   \<and> (raw (snd (call json op ev)) \<noteq> raw ev \<longrightarrow>
        op = Find_retired_entity
        \<and> \<not> truthy (dict_get (raw ev) ''entity'')
        \<and> fst (call json op ev) = Inr (dict_get (raw (snd (call json op ev))) ''entity'')
        \<and> raw (snd (call json op ev))
            = AList.update ''entity'' (dict_get (raw (snd (call json op ev))) ''entity'') (raw ev))
   \<and> ((\<exists>err. fst (call json op ev) = Inl err) \<longrightarrow> raw (snd (call json op ev)) = raw ev)"
proof (cases "op = Find_retired_entity")
  case True
  then have c: "call json op ev = find_retired_entity ev" by simp
  show ?thesis
    unfolding c using find_retired_entity_frame [of key ev] True by blast
next
  case False
  then have c: "snd (call json op ev) = ev" by (cases op) simp_all
  show ?thesis
    unfolding c using False by blast
qed

lemma find_retired_entity_examples:
  "dict_get (raw (snd (find_retired_entity (retired_event client_with_shot)))) ''entity''
     = example_shot"
  "\<exists>err. fst (find_retired_entity (retired_event client_without_shot)) = Inl err"
proof -
  have q: "(PStr ''Shot'', [(''$FROM$EventLogEntry.entity.id'', ''is'', PInt 11)]) = example_query"
    by (simp add: example_query_def)
  show "dict_get (raw (snd (find_retired_entity (retired_event client_with_shot)))) ''entity''
     = example_shot"
    unfolding find_retired_entity_absent [OF retired_event_facts(1-3), of client_with_shot]
    by (simp add: Let_def retired_event_facts(4) q example_client_facts dict_get_update)
  show "\<exists>err. fst (find_retired_entity (retired_event client_without_shot)) = Inl err"
    unfolding find_retired_entity_absent [OF retired_event_facts(1-3), of client_without_shot]
    by (simp add: Let_def retired_event_facts(4) q example_client_facts)
qed

theorem only_find_retired_entity_mutates_witness:
  "snd (call (\<lambda>sort_keys indent d. Inr ''{}'') Get_summary (retired_event client_with_shot))
     = retired_event client_with_shot
   \<and> map_of (raw (snd (call (\<lambda>sort_keys indent d. Inr ''{}'') Find_retired_entity
                          (retired_event client_with_shot)))) ''id''
       = map_of (raw (retired_event client_with_shot)) ''id''
   \<and> raw (snd (call (\<lambda>sort_keys indent d. Inr ''{}'') Find_retired_entity
                  (retired_event client_with_shot)))
       \<noteq> raw (retired_event client_with_shot)
   \<and> fst (call (\<lambda>sort_keys indent d. Inr ''{}'') Find_retired_entity
             (retired_event client_with_shot))
       = Inr example_shot
   \<and> (\<exists>err. fst (call (\<lambda>sort_keys indent d. Inr ''{}'') Find_retired_entity
                    (retired_event client_without_shot)) = Inl err)
   \<and> raw (snd (call (\<lambda>sort_keys indent d. Inr ''{}'') Find_retired_entity
                  (retired_event client_without_shot)))
       = raw (retired_event client_without_shot)"
proof -
  let ?json = "\<lambda>(sort_keys::bool) (indent::nat option) (d::pydict). (Inr ''{}'' :: string result)"
  let ?found = "retired_event client_with_shot"
  let ?lost = "retired_event client_without_shot"
  have c: "\<And>ev. call ?json Find_retired_entity ev = find_retired_entity ev" by simp
  have new: "dict_get (raw (snd (call ?json Find_retired_entity ?found))) ''entity'' = example_shot"
    unfolding c by (rule find_retired_entity_examples)
  have raised: "\<exists>err. fst (call ?json Find_retired_entity ?lost) = Inl err"
    unfolding c by (rule find_retired_entity_examples)
  have changed: "raw (snd (call ?json Find_retired_entity ?found)) \<noteq> raw ?found"
  proof
    assume "raw (snd (call ?json Find_retired_entity ?found)) = raw ?found"
    then have "dict_get (raw ?found) ''entity'' = example_shot" using new by simp
    then show False
      using retired_event_facts(1) [of client_with_shot] example_client_facts(5) by simp
  qed
  have "Get_summary \<noteq> Find_retired_entity" by simp
  then have 1: "snd (call ?json Get_summary ?found) = ?found"
    using only_find_retired_entity_mutates [of Get_summary ?json ?found] by blast
  have "''id'' \<noteq> ''entity''" by simp
  then have 2: "map_of (raw (snd (call ?json Find_retired_entity ?found))) ''id''
      = map_of (raw ?found) ''id''"
    using only_find_retired_entity_mutates [of Find_retired_entity ?json ?found "''id''"] by blast
  have "fst (call ?json Find_retired_entity ?found)
      = Inr (dict_get (raw (snd (call ?json Find_retired_entity ?found))) ''entity'')"
    using only_find_retired_entity_mutates [of Find_retired_entity ?json ?found "''id''"] changed
    by blast
  then have 3: "fst (call ?json Find_retired_entity ?found) = Inr example_shot"
    unfolding new .
  have 4: "raw (snd (call ?json Find_retired_entity ?lost)) = raw ?lost"
    using only_find_retired_entity_mutates [of Find_retired_entity ?json ?lost "''id''"] raised
    by blast
  from 1 2 changed 3 raised 4 show ?thesis by blast
qed

end
